theory Spec2Isabelle
  imports Main
begin

section \<open>The InfluxDB client library as seen by the two modules\<close>

text \<open>
  Both scripts (\<^verbatim>\<open>influxdb_user.py\<close>, \<^verbatim>\<open>influxdb_privs.py\<close>) talk to the server only
  through an \<^verbatim>\<open>InfluxDBClient\<close> object. The dictionaries that \<^verbatim>\<open>get_list_users\<close> and
  \<^verbatim>\<open>get_list_grants\<close> return are records whose fields carry the dictionary keys the
  scripts read.
\<close>

record influx_user =
  user :: string
  admin :: bool

record grant =
  database :: string
  privilege :: string

text \<open>
  The two exception classes the scripts name. \<open>ConnectionError t\<close> is
  \<^verbatim>\<open>requests.exceptions.ConnectionError\<close> with \<^verbatim>\<open>str(e) = t\<close>;
  \<open>InfluxDBClientError c\<close> is \<^verbatim>\<open>influxdb.exceptions.InfluxDBClientError\<close> with
  \<^verbatim>\<open>e.content = c\<close>.
\<close>

datatype exn = ConnectionError string | InfluxDBClientError string

text \<open>The values of the \<^verbatim>\<open>state\<close> and \<^verbatim>\<open>privilege\<close> parameters (their \<^verbatim>\<open>choices\<close>).\<close>

datatype state = Present | Absent

datatype level = PrivRead | PrivWrite | PrivAll

text \<open>The client methods the scripts call, with their arguments in call order.\<close>

datatype call =
    Get_list_users
  | Get_list_grants string
  | Create_user string string bool
  | Drop_user string
  | Grant_admin_privileges string
  | Revoke_admin_privileges string
  | Grant_privilege level string string
  | Revoke_privilege level string string

fun mutating :: "call \<Rightarrow> bool" where
  "mutating Get_list_users = False"
| "mutating (Get_list_grants n) = False"
| "mutating (Create_user n p a) = True"
| "mutating (Drop_user n) = True"
| "mutating (Grant_admin_privileges n) = True"
| "mutating (Revoke_admin_privileges n) = True"
| "mutating (Grant_privilege l d n) = True"
| "mutating (Revoke_privilege l d n) = True"

text \<open>\<^verbatim>\<open>create_user\<close> is the only client method that is handed the user's password.\<close>

fun sends_password :: "call \<Rightarrow> bool" where
  "sends_password (Create_user n p a) = True"
| "sends_password c = False"

record server =
  users :: "influx_user list"
  grants :: "string \<Rightarrow> grant list"

text \<open>
  A client is the server behind it, the exception (if any) each call raises, and the log
  of the calls issued through it so far, oldest first.
\<close>

record client =
  server :: server
  raises :: "call \<Rightarrow> exn option"
  calls :: "call list"

fun level_name :: "level \<Rightarrow> string" where
  "level_name PrivRead = ''READ''"
| "level_name PrivWrite = ''WRITE''"
| "level_name PrivAll = ''ALL PRIVILEGES''"

text \<open>
  Modelled from the spec: the effect of a successful mutating call on the server, which
  is the external collaborator of sections 3 and 6 and has no code in this repository.
  A user is identified by its name and carries an admin flag, set at creation and
  toggled by the admin calls; a grant belongs to a (user, database) pair, a new grant
  supersedes the prior one, and a revoke removes the grants of that level.
\<close>

fun apply_call :: "call \<Rightarrow> server \<Rightarrow> server" where
  "apply_call Get_list_users s = s"
| "apply_call (Get_list_grants n) s = s"
| "apply_call (Create_user n p a) s =
     (if n \<in> set (map user (users s)) then s
      else s\<lparr>users := users s @ [\<lparr>user = n, admin = a\<rparr>]\<rparr>)"
| "apply_call (Drop_user n) s = s\<lparr>users := filter (\<lambda>u. user u \<noteq> n) (users s)\<rparr>"
| "apply_call (Grant_admin_privileges n) s =
     s\<lparr>users := map (\<lambda>u. if user u = n then u\<lparr>admin := True\<rparr> else u) (users s)\<rparr>"
| "apply_call (Revoke_admin_privileges n) s =
     s\<lparr>users := map (\<lambda>u. if user u = n then u\<lparr>admin := False\<rparr> else u) (users s)\<rparr>"
| "apply_call (Grant_privilege l d n) s =
     s\<lparr>grants := (grants s)
        (n := \<lparr>database = d, privilege = level_name l\<rparr>
              # filter (\<lambda>g. database g \<noteq> d) (grants s n))\<rparr>"
| "apply_call (Revoke_privilege l d n) s =
     s\<lparr>grants := (grants s)
        (n := filter (\<lambda>g. \<not> (database g = d \<and> privilege g = level_name l)) (grants s n))\<rparr>"

definition get_list_users :: "client \<Rightarrow> (exn + influx_user list) \<times> client" where
  "get_list_users cl =
     (let cl' = cl\<lparr>calls := calls cl @ [Get_list_users]\<rparr>
      in case raises cl Get_list_users of
           Some e \<Rightarrow> (Inl e, cl')
         | None \<Rightarrow> (Inr (users (server cl)), cl'))"

definition get_list_grants :: "string \<Rightarrow> client \<Rightarrow> (exn + grant list) \<times> client" where
  "get_list_grants username cl =
     (let cl' = cl\<lparr>calls := calls cl @ [Get_list_grants username]\<rparr>
      in case raises cl (Get_list_grants username) of
           Some e \<Rightarrow> (Inl e, cl')
         | None \<Rightarrow> (Inr (grants (server cl) username), cl'))"

text \<open>
  A mutating client method: the call is logged; it either raises and leaves the server
  as it was, or returns and the server takes the call's effect.
\<close>

definition mutate :: "call \<Rightarrow> client \<Rightarrow> exn option \<times> client" where
  "mutate c cl =
     (let cl' = cl\<lparr>calls := calls cl @ [c]\<rparr>
      in case raises cl c of
           Some e \<Rightarrow> (Some e, cl')
         | None \<Rightarrow> (None, cl'\<lparr>server := apply_call c (server cl)\<rparr>))"

section \<open>The Ansible module object\<close>

text \<open>
  \<^verbatim>\<open>module.check_mode\<close> and \<^verbatim>\<open>module.params\<close>. \<^verbatim>\<open>AnsibleModule\<close> validates the
  parameters against the argument spec before \<^verbatim>\<open>main\<close> reads them, so \<^verbatim>\<open>state\<close> and
  \<^verbatim>\<open>privilege\<close> range over their choices. The connection parameters only select the
  server that \<^verbatim>\<open>connect_to_influxdb\<close> builds a client for.
\<close>

record ansible_module =
  check_mode :: bool
  param_state :: state

record user_module = ansible_module +
  param_name :: string
  param_password :: string
  param_admin :: bool

record privs_module = ansible_module +
  param_username :: string
  param_database :: string
  param_privilege :: level

text \<open>
  How an invocation ends: \<^verbatim>\<open>module.exit_json(changed=c)\<close>, \<^verbatim>\<open>module.fail_json(msg=t)\<close>
  (both leave the process), or an exception no handler catches.
\<close>

datatype outcome = Exit_json bool | Fail_json string | Traceback exn

definition connect_to_influxdb ::
  "'a ansible_module_scheme \<Rightarrow> server \<Rightarrow> (call \<Rightarrow> exn option) \<Rightarrow> client" where
  "connect_to_influxdb m srv f = \<lparr>server = srv, raises = f, calls = []\<rparr>"

section \<open>influxdb\_user.py\<close>

fun find_user_loop :: "influx_user list \<Rightarrow> string \<Rightarrow> influx_user option" where
  "find_user_loop [] name = None"
| "find_user_loop (u # us) name = (if user u = name then Some u else find_user_loop us name)"

text \<open>
  \<^verbatim>\<open>find_user\<close> (the same in both scripts): \<open>Inr\<close> is the value returned (\<open>None\<close> when the
  loop ends without a match), \<open>Inl\<close> the way the process ended.
\<close>

definition find_user ::
  "'a ansible_module_scheme \<Rightarrow> client \<Rightarrow> string \<Rightarrow> (outcome + influx_user option) \<times> client" where
  "find_user m cl name =
     (case get_list_users cl of
        (Inr us, cl') \<Rightarrow> (Inr (find_user_loop us name), cl')
      | (Inl (ConnectionError t), cl') \<Rightarrow> (Inl (Fail_json t), cl')
      | (Inl e, cl') \<Rightarrow> (Inl (Traceback e), cl'))"

definition create_user ::
  "'a ansible_module_scheme \<Rightarrow> client \<Rightarrow> string \<Rightarrow> string \<Rightarrow> bool \<Rightarrow> outcome \<times> client" where
  "create_user m cl name password adm =
     (if \<not> check_mode m then
        (case mutate (Create_user name password adm) cl of
           (Some (ConnectionError t), cl') \<Rightarrow> (Fail_json t, cl')
         | (Some e, cl') \<Rightarrow> (Traceback e, cl')
         | (None, cl') \<Rightarrow> (Exit_json True, cl'))
      else (Exit_json True, cl))"

definition drop_user :: "'a ansible_module_scheme \<Rightarrow> client \<Rightarrow> string \<Rightarrow> outcome \<times> client" where
  "drop_user m cl name =
     (if \<not> check_mode m then
        (case mutate (Drop_user name) cl of
           (Some (InfluxDBClientError c), cl') \<Rightarrow> (Fail_json c, cl')
         | (Some e, cl') \<Rightarrow> (Traceback e, cl')
         | (None, cl') \<Rightarrow> (Exit_json True, cl'))
      else (Exit_json True, cl))"

definition grant_admin_privileges ::
  "'a ansible_module_scheme \<Rightarrow> client \<Rightarrow> string \<Rightarrow> outcome \<times> client" where
  "grant_admin_privileges m cl name =
     (if \<not> check_mode m then
        (case mutate (Grant_admin_privileges name) cl of
           (Some (InfluxDBClientError c), cl') \<Rightarrow> (Fail_json c, cl')
         | (Some e, cl') \<Rightarrow> (Traceback e, cl')
         | (None, cl') \<Rightarrow> (Exit_json True, cl'))
      else (Exit_json True, cl))"

definition revoke_admin_privileges ::
  "'a ansible_module_scheme \<Rightarrow> client \<Rightarrow> string \<Rightarrow> outcome \<times> client" where
  "revoke_admin_privileges m cl name =
     (if \<not> check_mode m then
        (case mutate (Revoke_admin_privileges name) cl of
           (Some (InfluxDBClientError c), cl') \<Rightarrow> (Fail_json c, cl')
         | (Some e, cl') \<Rightarrow> (Traceback e, cl')
         | (None, cl') \<Rightarrow> (Exit_json True, cl'))
      else (Exit_json True, cl))"

text \<open>
  \<^verbatim>\<open>main\<close> of \<^verbatim>\<open>influxdb_user.py\<close>. Its first argument is the global \<^verbatim>\<open>HAS_INFLUXDB\<close>;
  the server and the exceptions stand for what the client built by
  \<^verbatim>\<open>connect_to_influxdb\<close> reaches. The call of \<^verbatim>\<open>create_user\<close> passes four arguments,
  so the fifth takes its default, \<^verbatim>\<open>admin=False\<close>.
\<close>

definition user_main ::
  "bool \<Rightarrow> user_module \<Rightarrow> server \<Rightarrow> (call \<Rightarrow> exn option) \<Rightarrow> outcome \<times> client" where
  "user_main HAS_INFLUXDB m srv f =
     (if \<not> HAS_INFLUXDB then
        (Fail_json ''influxdb python package is required for this module'',
         connect_to_influxdb m srv f)
      else
        (case find_user m (connect_to_influxdb m srv f) (param_name m) of
           (Inl out, cl) \<Rightarrow> (out, cl)
         | (Inr found, cl) \<Rightarrow>
             (case param_state m of
                Present \<Rightarrow>
                  (case found of
                     Some u \<Rightarrow>
                       if admin u = param_admin m then (Exit_json False, cl)
                       else if param_admin m then grant_admin_privileges m cl (param_name m)
                       else revoke_admin_privileges m cl (param_name m)
                   | None \<Rightarrow> create_user m cl (param_name m) (param_password m) False)
              | Absent \<Rightarrow>
                  (case found of
                     Some u \<Rightarrow> drop_user m cl (param_name m)
                   | None \<Rightarrow> (Exit_json False, cl)))))"

section \<open>influxdb\_privs.py\<close>

text \<open>
  The dictionary \<^verbatim>\<open>privilege_map\<close>: three keys map to a parameter value, the key
  \<^verbatim>\<open>'NO PRIVILEGES'\<close> maps to Python's \<^verbatim>\<open>None\<close>.
\<close>

definition privilege_map :: "string \<rightharpoonup> level option" where
  "privilege_map =
     [''READ'' \<mapsto> Some PrivRead,
      ''WRITE'' \<mapsto> Some PrivWrite,
      ''ALL PRIVILEGES'' \<mapsto> Some PrivAll,
      ''NO PRIVILEGES'' \<mapsto> None]"

fun find_grant_loop :: "grant list \<Rightarrow> level \<Rightarrow> string \<Rightarrow> grant option" where
  "find_grant_loop [] priv db = None"
| "find_grant_loop (g # gs) priv db =
     (if database g \<noteq> db \<or> privilege_map (privilege g) = None then find_grant_loop gs priv db
      else if the (privilege_map (privilege g)) = Some priv then Some g
      else find_grant_loop gs priv db)"

definition find_grant ::
  "'a ansible_module_scheme \<Rightarrow> client \<Rightarrow> level \<Rightarrow> string \<Rightarrow> string
     \<Rightarrow> (outcome + grant option) \<times> client" where
  "find_grant m cl priv db username =
     (case find_user m cl username of
        (Inl out, cl') \<Rightarrow> (Inl out, cl')
      | (Inr None, cl') \<Rightarrow>
          (Inl (Fail_json (''No user '' @ [CHR 0x22] @ username @ [CHR 0x22] @ ''.'')), cl')
      | (Inr (Some u), cl') \<Rightarrow>
          (case get_list_grants username cl' of
             (Inr gs, cl'') \<Rightarrow> (Inr (find_grant_loop gs priv db), cl'')
           | (Inl (ConnectionError t), cl'') \<Rightarrow> (Inl (Fail_json t), cl'')
           | (Inl e, cl'') \<Rightarrow> (Inl (Traceback e), cl'')))"

definition grant_privilege ::
  "'a ansible_module_scheme \<Rightarrow> client \<Rightarrow> level \<Rightarrow> string \<Rightarrow> string \<Rightarrow> outcome \<times> client" where
  "grant_privilege m cl priv db username =
     (if \<not> check_mode m then
        (case mutate (Grant_privilege priv db username) cl of
           (Some (ConnectionError t), cl') \<Rightarrow> (Fail_json t, cl')
         | (Some e, cl') \<Rightarrow> (Traceback e, cl')
         | (None, cl') \<Rightarrow> (Exit_json True, cl'))
      else (Exit_json True, cl))"

definition revoke_privilege ::
  "'a ansible_module_scheme \<Rightarrow> client \<Rightarrow> level \<Rightarrow> string \<Rightarrow> string \<Rightarrow> outcome \<times> client" where
  "revoke_privilege m cl priv db username =
     (if \<not> check_mode m then
        (case mutate (Revoke_privilege priv db username) cl of
           (Some (InfluxDBClientError c), cl') \<Rightarrow> (Fail_json c, cl')
         | (Some e, cl') \<Rightarrow> (Traceback e, cl')
         | (None, cl') \<Rightarrow> (Exit_json True, cl'))
      else (Exit_json True, cl))"

definition privs_main ::
  "bool \<Rightarrow> privs_module \<Rightarrow> server \<Rightarrow> (call \<Rightarrow> exn option) \<Rightarrow> outcome \<times> client" where
  "privs_main HAS_INFLUXDB m srv f =
     (if \<not> HAS_INFLUXDB then
        (Fail_json ''influxdb python package is required for this module'',
         connect_to_influxdb m srv f)
      else
        (case find_grant m (connect_to_influxdb m srv f)
                (param_privilege m) (param_database m) (param_username m) of
           (Inl out, cl) \<Rightarrow> (out, cl)
         | (Inr found, cl) \<Rightarrow>
             (case param_state m of
                Present \<Rightarrow>
                  (case found of
                     Some g \<Rightarrow> (Exit_json False, cl)
                   | None \<Rightarrow> grant_privilege m cl (param_privilege m) (param_database m)
                               (param_username m))
              | Absent \<Rightarrow>
                  (case found of
                     Some g \<Rightarrow> revoke_privilege m cl (param_privilege m) (param_database m)
                                 (param_username m)
                   | None \<Rightarrow> (Exit_json False, cl)))))"


section \<open>Observations, state tables and fixtures\<close>

text \<open>The mutating calls an invocation issued, in order.\<close>

definition mutations :: "outcome \<times> client \<Rightarrow> call list" where
  "mutations r = filter mutating (calls (snd r))"

text \<open>
  A grant on the requested database whose privilege string is one of the three that
  stand for the requested level.
\<close>

definition grant_matches :: "level \<Rightarrow> string \<Rightarrow> grant \<Rightarrow> bool" where
  "grant_matches priv db g \<longleftrightarrow>
     database g = db \<and>
     ((privilege g = ''READ'' \<and> priv = PrivRead) \<or>
      (privilege g = ''WRITE'' \<and> priv = PrivWrite) \<or>
      (privilege g = ''ALL PRIVILEGES'' \<and> priv = PrivAll))"

definition known_privilege :: "grant \<Rightarrow> bool" where
  "known_privilege g \<longleftrightarrow>
     privilege g \<in> {''READ'', ''WRITE'', ''ALL PRIVILEGES'', ''NO PRIVILEGES''}"

text \<open>
  The five-state table of the user module, row by row, for any invocation: whether the
  user exists is a fact about the server; of several users of one name the first counts.
\<close>

definition user_table ::
  "bool \<Rightarrow> user_module \<Rightarrow> server \<Rightarrow> (call \<Rightarrow> exn option) \<Rightarrow> bool" where
  "user_table H m srv f \<longleftrightarrow>
     (let r = user_main H m srv f;
          found = find (\<lambda>u. user u = param_name m) (users srv)
      in (param_state m = Present \<and> (\<exists>u. found = Some u \<and> admin u = param_admin m) \<longrightarrow>
            mutations r = [] \<and> fst r = Exit_json False) \<and>
         (param_state m = Present \<and> (\<exists>u. found = Some u \<and> admin u \<noteq> param_admin m)
            \<and> param_admin m \<longrightarrow>
            mutations r = [Grant_admin_privileges (param_name m)] \<and> fst r = Exit_json True) \<and>
         (param_state m = Present \<and> (\<exists>u. found = Some u \<and> admin u \<noteq> param_admin m)
            \<and> \<not> param_admin m \<longrightarrow>
            mutations r = [Revoke_admin_privileges (param_name m)] \<and> fst r = Exit_json True) \<and>
         (param_state m = Present \<and> found = None \<longrightarrow>
            (\<exists>p a. mutations r = [Create_user (param_name m) p a]) \<and> fst r = Exit_json True) \<and>
         (param_state m = Absent \<and> found \<noteq> None \<longrightarrow>
            mutations r = [Drop_user (param_name m)] \<and> fst r = Exit_json True) \<and>
         (param_state m = Absent \<and> found = None \<longrightarrow>
            mutations r = [] \<and> fst r = Exit_json False))"

text \<open>
  The four-state table of the privilege module, for any invocation on a user the server
  holds; the grants are those the server holds for that user.
\<close>

definition privs_table ::
  "bool \<Rightarrow> privs_module \<Rightarrow> server \<Rightarrow> (call \<Rightarrow> exn option) \<Rightarrow> bool" where
  "privs_table H m srv f \<longleftrightarrow>
     (let r = privs_main H m srv f;
          held = (\<exists>g \<in> set (grants srv (param_username m)).
                    grant_matches (param_privilege m) (param_database m) g)
      in (\<exists>u \<in> set (users srv). user u = param_username m) \<longrightarrow>
         (param_state m = Present \<and> held \<longrightarrow>
            mutations r = [] \<and> fst r = Exit_json False) \<and>
         (param_state m = Present \<and> \<not> held \<longrightarrow>
            mutations r =
              [Grant_privilege (param_privilege m) (param_database m) (param_username m)]
            \<and> fst r = Exit_json True) \<and>
         (param_state m = Absent \<and> held \<longrightarrow>
            mutations r =
              [Revoke_privilege (param_privilege m) (param_database m) (param_username m)]
            \<and> fst r = Exit_json True) \<and>
         (param_state m = Absent \<and> \<not> held \<longrightarrow>
            mutations r = [] \<and> fst r = Exit_json False))"


text \<open>
  The two operation classes of the error handling: the calls wrapped in
  \<^verbatim>\<open>except requests.exceptions.ConnectionError\<close> and those wrapped in
  \<^verbatim>\<open>except exceptions.InfluxDBClientError\<close>.
\<close>

fun connection_guarded :: "call \<Rightarrow> bool" where
  "connection_guarded Get_list_users = True"
| "connection_guarded (Get_list_grants n) = True"
| "connection_guarded (Create_user n p a) = True"
| "connection_guarded (Grant_privilege l d n) = True"
| "connection_guarded c = False"

fun rejection_guarded :: "call \<Rightarrow> bool" where
  "rejection_guarded (Drop_user n) = True"
| "rejection_guarded (Grant_admin_privileges n) = True"
| "rejection_guarded (Revoke_admin_privileges n) = True"
| "rejection_guarded (Revoke_privilege l d n) = True"
| "rejection_guarded c = False"

text \<open>
  Three auxiliary functions in which the runs of both \<^verbatim>\<open>main\<close>s are written as one
  equation each (lemmas \<open>user_main_run\<close> and \<open>privs_main_run\<close> below): how an
  exception raised by a call ends the process, the common shape of the six wrappers
  around a mutating call, and the mutating call each \<^verbatim>\<open>main\<close> selects.
\<close>

fun surfaced :: "call \<Rightarrow> exn \<Rightarrow> outcome" where
  "surfaced c (ConnectionError t) =
     (if connection_guarded c then Fail_json t else Traceback (ConnectionError t))"
| "surfaced c (InfluxDBClientError k) =
     (if rejection_guarded c then Fail_json k else Traceback (InfluxDBClientError k))"

definition attempt :: "'a ansible_module_scheme \<Rightarrow> call \<Rightarrow> client \<Rightarrow> outcome \<times> client" where
  "attempt m c cl =
     (if check_mode m then (Exit_json True, cl)
      else (case raises cl c of
              None \<Rightarrow>
                (Exit_json True,
                 cl\<lparr>calls := calls cl @ [c], server := apply_call c (server cl)\<rparr>)
            | Some e \<Rightarrow> (surfaced c e, cl\<lparr>calls := calls cl @ [c]\<rparr>)))"

definition user_reconcile :: "user_module \<Rightarrow> influx_user list \<Rightarrow> call option" where
  "user_reconcile m us =
     (case find (\<lambda>u. user u = param_name m) us of
        Some u \<Rightarrow>
          (case param_state m of
             Present \<Rightarrow>
               if admin u = param_admin m then None
               else if param_admin m then Some (Grant_admin_privileges (param_name m))
               else Some (Revoke_admin_privileges (param_name m))
           | Absent \<Rightarrow> Some (Drop_user (param_name m)))
      | None \<Rightarrow>
          (case param_state m of
             Present \<Rightarrow> Some (Create_user (param_name m) (param_password m) False)
           | Absent \<Rightarrow> None))"

definition privs_reconcile :: "privs_module \<Rightarrow> grant list \<Rightarrow> call option" where
  "privs_reconcile m gs =
     (case find (grant_matches (param_privilege m) (param_database m)) gs of
        Some g \<Rightarrow>
          (case param_state m of
             Present \<Rightarrow> None
           | Absent \<Rightarrow>
               Some (Revoke_privilege (param_privilege m) (param_database m) (param_username m)))
      | None \<Rightarrow>
          (case param_state m of
             Present \<Rightarrow>
               Some (Grant_privilege (param_privilege m) (param_database m) (param_username m))
           | Absent \<Rightarrow> None))"

text \<open>Concrete servers, exception plans and parameter sets for the examples.\<close>

definition no_raise :: "call \<Rightarrow> exn option" where
  "no_raise = (\<lambda>c. None)"

definition srv_empty :: server where
  "srv_empty = \<lparr>users = [], grants = (\<lambda>n. [])\<rparr>"

definition srv_bob :: server where
  "srv_bob = \<lparr>users = [\<lparr>user = ''bob'', admin = False\<rparr>], grants = (\<lambda>n. [])\<rparr>"

definition srv_todd :: server where
  "srv_todd = \<lparr>users = [\<lparr>user = ''todd'', admin = False\<rparr>], grants = (\<lambda>n. [])\<rparr>"

definition todd_grants :: "grant list" where
  "todd_grants =
     [\<lparr>database = ''NOAA_water_database'', privilege = ''SUPERUSER''\<rparr>,
      \<lparr>database = ''NOAA_water_database'', privilege = ''ALL PRIVILEGES''\<rparr>]"

definition srv_todd_granted :: server where
  "srv_todd_granted =
     \<lparr>users = [\<lparr>user = ''todd'', admin = False\<rparr>],
      grants = (\<lambda>n. if n = ''todd'' then todd_grants else [])\<rparr>"

definition bob_admin :: user_module where
  "bob_admin =
     \<lparr>check_mode = False, param_state = Present, param_name = ''bob'',
      param_password = ''secret'', param_admin = True\<rparr>"

definition todd_all :: privs_module where
  "todd_all =
     \<lparr>check_mode = False, param_state = Present, param_username = ''todd'',
      param_database = ''NOAA_water_database'', param_privilege = PrivAll\<rparr>"

section \<open>The runs of both modules\<close>

text \<open>
  The loops are first-match searches; with that, each \<^verbatim>\<open>main\<close> is one equation over
  what the listing calls return, and the effect of a second run follows from the effect
  of the selected call on the server.
\<close>

lemma privilege_map_Some:
  "privilege_map s = Some (Some l) \<longleftrightarrow>
     (s = ''READ'' \<and> l = PrivRead) \<or> (s = ''WRITE'' \<and> l = PrivWrite) \<or>
     (s = ''ALL PRIVILEGES'' \<and> l = PrivAll)"
  by (auto simp: privilege_map_def)

lemma privilege_map_None:
  "privilege_map s = None \<longleftrightarrow>
     s \<notin> {''READ'', ''WRITE'', ''ALL PRIVILEGES'', ''NO PRIVILEGES''}"
  by (auto simp: privilege_map_def)

lemma find_user_loop_find: "find_user_loop us n = find (\<lambda>u. user u = n) us"
  by (induction us) simp_all

lemma find_grant_loop_find:
  "find_grant_loop gs priv db = find (grant_matches priv db) gs"
proof (induction gs)
  case Nil
  show ?case by simp
next
  case (Cons g gs)
  show ?case
  proof (cases "privilege_map (privilege g)")
    case None
    then have "\<not> grant_matches priv db g"
      using privilege_map_None[of "privilege g"] by (auto simp: grant_matches_def)
    with None Cons show ?thesis by simp
  next
    case (Some v)
    have "v = Some priv \<longleftrightarrow> privilege_map (privilege g) = Some (Some priv)"
      using Some by simp
    then have "grant_matches priv db g \<longleftrightarrow> database g = db \<and> v = Some priv"
      unfolding grant_matches_def privilege_map_Some by simp
    with Some Cons show ?thesis by simp
  qed
qed

lemma find_user_eq:
  "find_user m cl n =
     (case raises cl Get_list_users of
        None \<Rightarrow> Inr (find (\<lambda>u. user u = n) (users (server cl)))
      | Some (ConnectionError t) \<Rightarrow> Inl (Fail_json t)
      | Some (InfluxDBClientError k) \<Rightarrow> Inl (Traceback (InfluxDBClientError k)),
      cl\<lparr>calls := calls cl @ [Get_list_users]\<rparr>)"
  by (simp add: find_user_def get_list_users_def Let_def find_user_loop_find
           split: option.splits exn.splits)

lemma find_grant_eq:
  "find_grant m cl priv db n =
     (case find_user m cl n of
        (Inl out, cl') \<Rightarrow> (Inl out, cl')
      | (Inr None, cl') \<Rightarrow> (Inl (Fail_json (''No user '' @ [CHR 0x22] @ n @ [CHR 0x22] @ ''.'')), cl')
      | (Inr (Some u), cl') \<Rightarrow>
          (case raises cl' (Get_list_grants n) of
             None \<Rightarrow> Inr (find (grant_matches priv db) (grants (server cl') n))
           | Some (ConnectionError t) \<Rightarrow> Inl (Fail_json t)
           | Some (InfluxDBClientError k) \<Rightarrow> Inl (Traceback (InfluxDBClientError k)),
           cl'\<lparr>calls := calls cl' @ [Get_list_grants n]\<rparr>))"
  by (simp add: find_grant_def get_list_grants_def Let_def find_grant_loop_find
           split: option.splits exn.splits sum.splits prod.splits)

lemma create_user_attempt: "create_user m cl n p a = attempt m (Create_user n p a) cl"
  by (simp add: create_user_def attempt_def mutate_def Let_def split: option.splits exn.splits)

lemma drop_user_attempt: "drop_user m cl n = attempt m (Drop_user n) cl"
  by (simp add: drop_user_def attempt_def mutate_def Let_def split: option.splits exn.splits)

lemma grant_admin_attempt:
  "grant_admin_privileges m cl n = attempt m (Grant_admin_privileges n) cl"
  by (simp add: grant_admin_privileges_def attempt_def mutate_def Let_def
           split: option.splits exn.splits)

lemma revoke_admin_attempt:
  "revoke_admin_privileges m cl n = attempt m (Revoke_admin_privileges n) cl"
  by (simp add: revoke_admin_privileges_def attempt_def mutate_def Let_def
           split: option.splits exn.splits)

lemma grant_privilege_attempt:
  "grant_privilege m cl l d n = attempt m (Grant_privilege l d n) cl"
  by (simp add: grant_privilege_def attempt_def mutate_def Let_def split: option.splits exn.splits)

lemma revoke_privilege_attempt:
  "revoke_privilege m cl l d n = attempt m (Revoke_privilege l d n) cl"
  by (simp add: revoke_privilege_def attempt_def mutate_def Let_def split: option.splits exn.splits)

lemmas attempts =
  create_user_attempt drop_user_attempt grant_admin_attempt revoke_admin_attempt
  grant_privilege_attempt revoke_privilege_attempt

lemma find_user_run:
  "find_user m cl n =
     (case raises cl Get_list_users of
        None \<Rightarrow> Inr (find (\<lambda>u. user u = n) (users (server cl)))
      | Some e \<Rightarrow> Inl (surfaced Get_list_users e),
      cl\<lparr>calls := calls cl @ [Get_list_users]\<rparr>)"
  by (simp add: find_user_eq split: option.splits exn.splits)

lemma user_main_run:
  "user_main True m srv f =
     (case f Get_list_users of
        Some e \<Rightarrow> (surfaced Get_list_users e, \<lparr>server = srv, raises = f, calls = [Get_list_users]\<rparr>)
      | None \<Rightarrow>
          (case user_reconcile m (users srv) of
             None \<Rightarrow> (Exit_json False, \<lparr>server = srv, raises = f, calls = [Get_list_users]\<rparr>)
           | Some c \<Rightarrow> attempt m c \<lparr>server = srv, raises = f, calls = [Get_list_users]\<rparr>))"
  by (simp add: user_main_def find_user_run attempts user_reconcile_def connect_to_influxdb_def
           split: option.splits state.splits)

lemma user_main_no_library:
  "user_main False m srv f =
     (Fail_json ''influxdb python package is required for this module'',
      \<lparr>server = srv, raises = f, calls = []\<rparr>)"
  by (simp add: user_main_def connect_to_influxdb_def)

lemma privs_main_run:
  "privs_main True m srv f =
     (case f Get_list_users of
        Some e \<Rightarrow> (surfaced Get_list_users e, \<lparr>server = srv, raises = f, calls = [Get_list_users]\<rparr>)
      | None \<Rightarrow>
          (case find (\<lambda>u. user u = param_username m) (users srv) of
             None \<Rightarrow>
               (Fail_json (''No user '' @ [CHR 0x22] @ param_username m @ [CHR 0x22] @ ''.''),
                \<lparr>server = srv, raises = f, calls = [Get_list_users]\<rparr>)
           | Some u \<Rightarrow>
               (case f (Get_list_grants (param_username m)) of
                  Some e \<Rightarrow>
                    (surfaced (Get_list_grants (param_username m)) e,
                     \<lparr>server = srv, raises = f,
                      calls = [Get_list_users, Get_list_grants (param_username m)]\<rparr>)
                | None \<Rightarrow>
                    (case privs_reconcile m (grants srv (param_username m)) of
                       None \<Rightarrow>
                         (Exit_json False,
                          \<lparr>server = srv, raises = f,
                           calls = [Get_list_users, Get_list_grants (param_username m)]\<rparr>)
                     | Some c \<Rightarrow>
                         attempt m c
                           \<lparr>server = srv, raises = f,
                            calls = [Get_list_users, Get_list_grants (param_username m)]\<rparr>))))"
  by (simp add: privs_main_def find_grant_eq find_user_run attempts privs_reconcile_def
                connect_to_influxdb_def
           split: option.splits state.splits exn.splits)

lemma privs_main_no_library:
  "privs_main False m srv f =
     (Fail_json ''influxdb python package is required for this module'',
      \<lparr>server = srv, raises = f, calls = []\<rparr>)"
  by (simp add: privs_main_def connect_to_influxdb_def)

lemma user_reconcile_mutating: "user_reconcile m us = Some c \<Longrightarrow> mutating c"
  by (auto simp: user_reconcile_def split: option.splits state.splits if_splits)

lemma privs_reconcile_mutating: "privs_reconcile m gs = Some c \<Longrightarrow> mutating c"
  by (auto simp: privs_reconcile_def split: option.splits state.splits if_splits)

lemma attempt_calls:
  "calls (snd (attempt m c cl)) = (if check_mode m then calls cl else calls cl @ [c])"
  by (simp add: attempt_def split: option.splits)

lemma attempt_outcome:
  "fst (attempt m c cl) =
     (if check_mode m then Exit_json True
      else case raises cl c of None \<Rightarrow> Exit_json True | Some e \<Rightarrow> surfaced c e)"
  by (simp add: attempt_def split: option.splits)



lemma user_main_calls:
  "calls (snd (user_main H m srv f)) =
     (if \<not> H then []
      else case f Get_list_users of
             Some e \<Rightarrow> [Get_list_users]
           | None \<Rightarrow>
               (case user_reconcile m (users srv) of
                  None \<Rightarrow> [Get_list_users]
                | Some c \<Rightarrow> if check_mode m then [Get_list_users] else [Get_list_users, c]))"
  by (cases H) (simp_all add: user_main_run user_main_no_library attempt_calls split: option.splits)

lemma privs_main_calls:
  "calls (snd (privs_main H m srv f)) =
     (if \<not> H then []
      else case f Get_list_users of
             Some e \<Rightarrow> [Get_list_users]
           | None \<Rightarrow>
               (case find (\<lambda>u. user u = param_username m) (users srv) of
                  None \<Rightarrow> [Get_list_users]
                | Some u \<Rightarrow>
                    (case f (Get_list_grants (param_username m)) of
                       Some e \<Rightarrow> [Get_list_users, Get_list_grants (param_username m)]
                     | None \<Rightarrow>
                         (case privs_reconcile m (grants srv (param_username m)) of
                            None \<Rightarrow> [Get_list_users, Get_list_grants (param_username m)]
                          | Some c \<Rightarrow>
                              if check_mode m
                              then [Get_list_users, Get_list_grants (param_username m)]
                              else [Get_list_users, Get_list_grants (param_username m), c]))))"
  by (cases H)
     (simp_all add: privs_main_run privs_main_no_library attempt_calls split: option.splits)

lemma user_main_outcome:
  "fst (user_main H m srv f) =
     (if \<not> H then Fail_json ''influxdb python package is required for this module''
      else case f Get_list_users of
             Some e \<Rightarrow> surfaced Get_list_users e
           | None \<Rightarrow>
               (case user_reconcile m (users srv) of
                  None \<Rightarrow> Exit_json False
                | Some c \<Rightarrow>
                    if check_mode m then Exit_json True
                    else (case f c of None \<Rightarrow> Exit_json True | Some e \<Rightarrow> surfaced c e)))"
  by (cases H)
     (simp_all add: user_main_run user_main_no_library attempt_outcome split: option.splits)

lemma privs_main_outcome:
  "fst (privs_main H m srv f) =
     (if \<not> H then Fail_json ''influxdb python package is required for this module''
      else case f Get_list_users of
             Some e \<Rightarrow> surfaced Get_list_users e
           | None \<Rightarrow>
               (case find (\<lambda>u. user u = param_username m) (users srv) of
                  None \<Rightarrow>
                    Fail_json (''No user '' @ [CHR 0x22] @ param_username m @ [CHR 0x22] @ ''.'')
                | Some u \<Rightarrow>
                    (case f (Get_list_grants (param_username m)) of
                       Some e \<Rightarrow> surfaced (Get_list_grants (param_username m)) e
                     | None \<Rightarrow>
                         (case privs_reconcile m (grants srv (param_username m)) of
                            None \<Rightarrow> Exit_json False
                          | Some c \<Rightarrow>
                              if check_mode m then Exit_json True
                              else (case f c of
                                      None \<Rightarrow> Exit_json True
                                    | Some e \<Rightarrow> surfaced c e)))))"
  by (cases H)
     (simp_all add: privs_main_run privs_main_no_library attempt_outcome split: option.splits)

lemma user_reconcile_password [simp]:
  "find (\<lambda>u. user u = param_name m) us \<noteq> None \<Longrightarrow>
   user_reconcile (m\<lparr>param_password := p\<rparr>) us = user_reconcile m us"
  by (auto simp: user_reconcile_def split: option.splits state.splits)

lemma user_reconcile_check_mode [simp]:
  "user_reconcile (m\<lparr>check_mode := b\<rparr>) us = user_reconcile m us"
  by (simp add: user_reconcile_def split: option.splits state.splits)

lemma privs_reconcile_check_mode [simp]:
  "privs_reconcile (m\<lparr>check_mode := b\<rparr>) gs = privs_reconcile m gs"
  by (simp add: privs_reconcile_def split: option.splits state.splits)

lemma user_reconcile_cases:
  "user_reconcile m us = Some c \<Longrightarrow>
     c = Create_user (param_name m) (param_password m) False \<and>
       find (\<lambda>u. user u = param_name m) us = None \<and> param_state m = Present
     \<or> c = Drop_user (param_name m) \<or> c = Grant_admin_privileges (param_name m)
     \<or> c = Revoke_admin_privileges (param_name m)"
  by (auto simp: user_reconcile_def split: option.splits state.splits if_splits)

lemma privs_reconcile_cases:
  "privs_reconcile m gs = Some c \<Longrightarrow>
     c = Grant_privilege (param_privilege m) (param_database m) (param_username m)
     \<or> c = Revoke_privilege (param_privilege m) (param_database m) (param_username m)"
  by (auto simp: privs_reconcile_def split: option.splits state.splits if_splits)



lemma user_main_clean_run:
  assumes "\<not> check_mode m" and "f Get_list_users = None"
    and "\<forall>c. user_reconcile m (users srv) = Some c \<longrightarrow> f c = None"
  shows "user_main True m srv f =
     (case user_reconcile m (users srv) of
        None \<Rightarrow> (Exit_json False, \<lparr>server = srv, raises = f, calls = [Get_list_users]\<rparr>)
      | Some c \<Rightarrow>
          (Exit_json True,
           \<lparr>server = apply_call c srv, raises = f, calls = [Get_list_users, c]\<rparr>))"
  using assms by (auto simp: user_main_run attempt_def split: option.splits)

lemma privs_main_clean_run:
  assumes "\<not> check_mode m" and "f Get_list_users = None"
    and "f (Get_list_grants (param_username m)) = None"
    and "\<forall>c. privs_reconcile m (grants srv (param_username m)) = Some c \<longrightarrow> f c = None"
    and "find (\<lambda>u. user u = param_username m) (users srv) = Some u"
  shows "privs_main True m srv f =
     (case privs_reconcile m (grants srv (param_username m)) of
        None \<Rightarrow>
          (Exit_json False,
           \<lparr>server = srv, raises = f,
            calls = [Get_list_users, Get_list_grants (param_username m)]\<rparr>)
      | Some c \<Rightarrow>
          (Exit_json True,
           \<lparr>server = apply_call c srv, raises = f,
            calls = [Get_list_users, Get_list_grants (param_username m), c]\<rparr>))"
  using assms by (auto simp: privs_main_run attempt_def split: option.splits)

lemma user_main_quiet_run:
  assumes "\<not> check_mode m" and "\<forall>c. f c = None"
  shows "user_main True m srv f =
     (case user_reconcile m (users srv) of
        None \<Rightarrow> (Exit_json False, \<lparr>server = srv, raises = f, calls = [Get_list_users]\<rparr>)
      | Some c \<Rightarrow>
          (Exit_json True,
           \<lparr>server = apply_call c srv, raises = f, calls = [Get_list_users, c]\<rparr>))"
  using assms by (intro user_main_clean_run) simp_all

lemma privs_main_quiet_run:
  assumes "\<not> check_mode m" and "\<forall>c. f c = None"
    and "find (\<lambda>u. user u = param_username m) (users srv) = Some u"
  shows "privs_main True m srv f =
     (case privs_reconcile m (grants srv (param_username m)) of
        None \<Rightarrow>
          (Exit_json False,
           \<lparr>server = srv, raises = f,
            calls = [Get_list_users, Get_list_grants (param_username m)]\<rparr>)
      | Some c \<Rightarrow>
          (Exit_json True,
           \<lparr>server = apply_call c srv, raises = f,
            calls = [Get_list_users, Get_list_grants (param_username m), c]\<rparr>))"
  using assms by (intro privs_main_clean_run) simp_all

lemma grant_matches_level_name:
  "grant_matches priv db g \<longleftrightarrow> database g = db \<and> privilege g = level_name priv"
  by (cases priv) (auto simp: grant_matches_def)

lemma find_filter_superset:
  "(\<And>x. P x \<Longrightarrow> Q x) \<Longrightarrow> find P (filter Q xs) = find P xs"
  by (induction xs) auto

lemma find_filter_out: "find P (filter (\<lambda>x. \<not> P x) xs) = None"
  by (induction xs) auto

lemma find_map_admin:
  "find (\<lambda>u. user u = n) (map (\<lambda>u. if user u = n then u\<lparr>admin := b\<rparr> else u) us) =
     map_option (\<lambda>u. u\<lparr>admin := b\<rparr>) (find (\<lambda>u. user u = n) us)"
  by (induction us) auto

lemma find_append_new:
  "find P xs = None \<Longrightarrow> P x \<Longrightarrow> find P (xs @ [x]) = Some x"
  by (induction xs) (auto split: if_splits)

lemma user_reconcile_settles:
  assumes "user_reconcile m (users srv) = Some c"
    and "\<not> (param_state m = Present \<and> param_admin m \<and>
            find (\<lambda>u. user u = param_name m) (users srv) = None)"
  shows "user_reconcile m (users (apply_call c srv)) = None"
proof (cases "find (\<lambda>u. user u = param_name m) (users srv)")
  case None
  then have "param_name m \<notin> user ` set (users srv)"
    by (auto simp: find_None_iff)
  with None assms show ?thesis
    by (cases "param_state m") (auto simp: user_reconcile_def find_append_new)
next
  case (Some u)
  with assms(1) show ?thesis
    by (cases "param_state m")
       (auto simp: user_reconcile_def find_map_admin find_filter_out split: if_splits)
qed

lemma user_main_second_run:
  assumes "\<not> check_mode m" and "\<forall>c. f c = None"
    and "fst (user_main True m srv f) = Exit_json True"
    and "\<not> (param_state m = Present \<and> param_admin m \<and>
            find (\<lambda>u. user u = param_name m) (users srv) = None)"
  shows "fst (user_main True m (server (snd (user_main True m srv f))) f) = Exit_json False"
proof (cases "user_reconcile m (users srv)")
  case None
  with assms(3) show ?thesis
    by (simp add: user_main_quiet_run[OF assms(1,2)])
next
  case (Some c)
  then show ?thesis
    using user_reconcile_settles[OF Some assms(4)]
    by (simp add: user_main_quiet_run[OF assms(1,2)])
qed

lemma privs_reconcile_settles:
  assumes "privs_reconcile m (grants srv (param_username m)) = Some c"
  shows "privs_reconcile m (grants (apply_call c srv) (param_username m)) = None \<and>
         users (apply_call c srv) = users srv"
proof (cases "param_state m")
  case Present
  with assms show ?thesis
    by (auto simp: privs_reconcile_def grant_matches_level_name split: option.splits)
next
  case Absent
  have "find (grant_matches (param_privilege m) (param_database m))
          (filter (\<lambda>g. \<not> grant_matches (param_privilege m) (param_database m) g) gs) = None"
    for gs by (rule find_filter_out)
  with Absent assms show ?thesis
    by (auto simp: privs_reconcile_def grant_matches_level_name split: option.splits)
qed

lemma privs_main_second_run:
  assumes "\<not> check_mode m" and "\<forall>c. f c = None"
    and "fst (privs_main True m srv f) = Exit_json True"
  shows "fst (privs_main True m (server (snd (privs_main True m srv f))) f) = Exit_json False"
proof (cases "find (\<lambda>u. user u = param_username m) (users srv)")
  case None
  with assms show ?thesis by (simp add: privs_main_run)
next
  case (Some u)
  note run = privs_main_quiet_run[OF assms(1,2)]
  show ?thesis
  proof (cases "privs_reconcile m (grants srv (param_username m))")
    case None
    with assms(3) show ?thesis by (simp add: run[OF Some])
  next
    case c: (Some c)
    from privs_reconcile_settles[OF c] Some
    have "find (\<lambda>u. user u = param_username m) (users (apply_call c srv)) = Some u"
      and r: "privs_reconcile m (grants (apply_call c srv) (param_username m)) = None"
      by simp_all
    from run[OF this(1)] r c show ?thesis by (simp add: run[OF Some])
  qed
qed


section \<open>The claims\<close>

subsection \<open>C1: the state table of the user module\<close>

text \<open>
  As stated for every invocation, the table fails in four ways, each at the request for a
  missing user \<^verbatim>\<open>bob\<close> with \<^verbatim>\<open>state=present\<close>, whose row asks for exactly one create-user
  call and \<^verbatim>\<open>changed=true\<close>. In dry-run mode the guard \<^verbatim>\<open>if not module.check_mode\<close>
  skips the call. When the create-user call raises, the call was issued but the result is
  a failure. When the listing of the users raises, the invocation fails before any
  mutating call. When the client library is missing, it fails before any call.
\<close>

theorem user_table_counterexample:
  "mutations (user_main True (bob_admin\<lparr>check_mode := True\<rparr>) srv_empty no_raise) = [] \<and>
   fst (user_main True (bob_admin\<lparr>check_mode := True\<rparr>) srv_empty no_raise) = Exit_json True \<and>
   \<not> user_table True (bob_admin\<lparr>check_mode := True\<rparr>) srv_empty no_raise \<and>
   mutations (user_main True bob_admin srv_empty
     (no_raise(Create_user ''bob'' ''secret'' False := Some (ConnectionError ''refused'')))) =
     [Create_user ''bob'' ''secret'' False] \<and>
   fst (user_main True bob_admin srv_empty
     (no_raise(Create_user ''bob'' ''secret'' False := Some (ConnectionError ''refused'')))) =
     Fail_json ''refused'' \<and>
   \<not> user_table True bob_admin srv_empty
     (no_raise(Create_user ''bob'' ''secret'' False := Some (ConnectionError ''refused''))) \<and>
   user_main True bob_admin srv_empty
     (no_raise(Get_list_users := Some (ConnectionError ''refused''))) =
     (Fail_json ''refused'',
      \<lparr>server = srv_empty,
       raises = no_raise(Get_list_users := Some (ConnectionError ''refused'')),
       calls = [Get_list_users]\<rparr>) \<and>
   \<not> user_table True bob_admin srv_empty
     (no_raise(Get_list_users := Some (ConnectionError ''refused''))) \<and>
   user_main False bob_admin srv_empty no_raise =
     (Fail_json ''influxdb python package is required for this module'',
      \<lparr>server = srv_empty, raises = no_raise, calls = []\<rparr>) \<and>
   \<not> user_table False bob_admin srv_empty no_raise"
  by (simp add: user_table_def Let_def user_main_run user_main_no_library user_reconcile_def
        attempt_def mutations_def bob_admin_def srv_empty_def no_raise_def)

text \<open>
  C1 (amended): for every invocation of the user module with the client library
  importable, outside dry-run mode, in which no client call the invocation issues raises,
  the outcome matches the five-state table. With \<^verbatim>\<open>state=present\<close>: an existing user
  whose admin flag equals the \<^verbatim>\<open>admin\<close> parameter gives no mutating call and
  \<^verbatim>\<open>changed=false\<close>; an existing user with another admin flag gives exactly one
  grant-admin call (\<^verbatim>\<open>admin=true\<close>) or revoke-admin call (\<^verbatim>\<open>admin=false\<close>) and
  \<^verbatim>\<open>changed=true\<close>; a missing user gives exactly one create-user call and
  \<^verbatim>\<open>changed=true\<close>. With \<^verbatim>\<open>state=absent\<close>: an existing user gives exactly one drop-user
  call and \<^verbatim>\<open>changed=true\<close>; a missing user gives no mutating call and
  \<^verbatim>\<open>changed=false\<close>.
\<close>

theorem user_table_normal_run:
  assumes "\<not> check_mode m"
    and "\<forall>c \<in> set (calls (snd (user_main True m srv f))). f c = None"
  shows "user_table True m srv f"
proof -
  have listed: "f Get_list_users = None"
    using assms(2) by (cases "f Get_list_users") (auto simp: user_main_calls)
  have issued: "\<forall>c. user_reconcile m (users srv) = Some c \<longrightarrow> f c = None"
    using assms listed by (auto simp: user_main_calls)
  note run = user_main_clean_run[OF assms(1) listed issued]
  show ?thesis
  proof (cases "find (\<lambda>u. user u = param_name m) (users srv)")
    case None
    then show ?thesis
      by (cases "param_state m")
         (auto simp: user_table_def Let_def run user_reconcile_def mutations_def)
  next
    case (Some u)
    then show ?thesis
      by (cases "param_state m")
         (simp_all add: user_table_def Let_def run user_reconcile_def mutations_def)
  qed
qed

theorem user_table_normal_run_witness:
  "\<not> check_mode bob_admin \<and>
   user_table True bob_admin srv_empty no_raise \<and>
   user_main True bob_admin srv_empty no_raise =
     (Exit_json True,
      \<lparr>server = \<lparr>users = [\<lparr>user = ''bob'', admin = False\<rparr>], grants = (\<lambda>n. [])\<rparr>,
       raises = no_raise, calls = [Get_list_users, Create_user ''bob'' ''secret'' False]\<rparr>) \<and>
   user_table True bob_admin srv_bob no_raise \<and>
   mutations (user_main True bob_admin srv_bob no_raise) = [Grant_admin_privileges ''bob''] \<and>
   user_table True (bob_admin\<lparr>param_admin := False\<rparr>) srv_bob no_raise \<and>
   user_main True (bob_admin\<lparr>param_admin := False\<rparr>) srv_bob no_raise =
     (Exit_json False, \<lparr>server = srv_bob, raises = no_raise, calls = [Get_list_users]\<rparr>) \<and>
   user_table True (bob_admin\<lparr>param_state := Absent\<rparr>) srv_bob no_raise \<and>
   mutations (user_main True (bob_admin\<lparr>param_state := Absent\<rparr>) srv_bob no_raise) =
     [Drop_user ''bob''] \<and>
   user_table True (bob_admin\<lparr>param_state := Absent\<rparr>) srv_empty no_raise \<and>
   fst (user_main True (bob_admin\<lparr>param_state := Absent\<rparr>) srv_empty no_raise) =
     Exit_json False \<and>
   user_table True (bob_admin\<lparr>param_state := Absent\<rparr>) srv_empty
     (no_raise(Drop_user ''bob'' := Some (InfluxDBClientError ''denied'')))"
  using user_table_normal_run[where m = bob_admin and f = no_raise and srv = srv_empty]
    user_table_normal_run[where m = bob_admin and f = no_raise and srv = srv_bob]
    user_table_normal_run[where m = "bob_admin\<lparr>param_admin := False\<rparr>" and f = no_raise
      and srv = srv_bob]
    user_table_normal_run[where m = "bob_admin\<lparr>param_state := Absent\<rparr>" and f = no_raise
      and srv = srv_bob]
    user_table_normal_run[where m = "bob_admin\<lparr>param_state := Absent\<rparr>" and f = no_raise
      and srv = srv_empty]
    user_table_normal_run[where m = "bob_admin\<lparr>param_state := Absent\<rparr>"
      and f = "no_raise(Drop_user ''bob'' := Some (InfluxDBClientError ''denied''))"
      and srv = srv_empty]
  by (simp add: user_main_run user_reconcile_def attempt_def mutations_def bob_admin_def
        srv_empty_def srv_bob_def no_raise_def)

subsection \<open>C2: the state table of the privilege module\<close>

text \<open>
  As stated for every invocation on an existing user, the table fails in four ways, each
  at the request for a grant user \<^verbatim>\<open>todd\<close> does not hold, with \<^verbatim>\<open>state=present\<close>, whose
  row asks for exactly one grant-privilege call and \<^verbatim>\<open>changed=true\<close>. In dry-run mode
  the call is skipped. When the grant-privilege call raises, the result is a failure.
  When the listing of the grants raises, the invocation fails before any mutating call.
  When the client library is missing, it fails before any call.
\<close>

theorem privs_table_counterexample:
  "mutations (privs_main True (todd_all\<lparr>check_mode := True\<rparr>) srv_todd no_raise) = [] \<and>
   fst (privs_main True (todd_all\<lparr>check_mode := True\<rparr>) srv_todd no_raise) = Exit_json True \<and>
   \<not> privs_table True (todd_all\<lparr>check_mode := True\<rparr>) srv_todd no_raise \<and>
   mutations (privs_main True todd_all srv_todd
     (no_raise(Grant_privilege PrivAll ''NOAA_water_database'' ''todd'' :=
        Some (ConnectionError ''refused'')))) =
     [Grant_privilege PrivAll ''NOAA_water_database'' ''todd''] \<and>
   fst (privs_main True todd_all srv_todd
     (no_raise(Grant_privilege PrivAll ''NOAA_water_database'' ''todd'' :=
        Some (ConnectionError ''refused'')))) = Fail_json ''refused'' \<and>
   \<not> privs_table True todd_all srv_todd
     (no_raise(Grant_privilege PrivAll ''NOAA_water_database'' ''todd'' :=
        Some (ConnectionError ''refused''))) \<and>
   privs_main True todd_all srv_todd
     (no_raise(Get_list_grants ''todd'' := Some (ConnectionError ''refused''))) =
     (Fail_json ''refused'',
      \<lparr>server = srv_todd,
       raises = no_raise(Get_list_grants ''todd'' := Some (ConnectionError ''refused'')),
       calls = [Get_list_users, Get_list_grants ''todd'']\<rparr>) \<and>
   \<not> privs_table True todd_all srv_todd
     (no_raise(Get_list_grants ''todd'' := Some (ConnectionError ''refused''))) \<and>
   privs_main False todd_all srv_todd no_raise =
     (Fail_json ''influxdb python package is required for this module'',
      \<lparr>server = srv_todd, raises = no_raise, calls = []\<rparr>) \<and>
   \<not> privs_table False todd_all srv_todd no_raise"
  by (simp add: privs_table_def Let_def privs_main_run privs_main_no_library
        privs_reconcile_def attempt_def mutations_def todd_all_def srv_todd_def no_raise_def)

text \<open>
  C2 (amended): for every invocation of the privilege module on an existing user, with the
  client library importable, outside dry-run mode, in which no client call the invocation
  issues raises, the outcome matches the four-state table. With \<^verbatim>\<open>state=present\<close>: a
  grant on the requested database that maps to the requested level gives no mutating call
  and \<^verbatim>\<open>changed=false\<close>; no such grant gives exactly one grant-privilege call with
  (privilege, database, username) and \<^verbatim>\<open>changed=true\<close>. With \<^verbatim>\<open>state=absent\<close>: such a
  grant gives exactly one revoke-privilege call and \<^verbatim>\<open>changed=true\<close>; no such grant gives
  no mutating call and \<^verbatim>\<open>changed=false\<close>.
\<close>

theorem privs_table_normal_run:
  assumes "\<not> check_mode m"
    and "\<forall>c \<in> set (calls (snd (privs_main True m srv f))). f c = None"
  shows "privs_table True m srv f"
proof (cases "find (\<lambda>u. user u = param_username m) (users srv)")
  case None
  then have "\<not> (\<exists>u \<in> set (users srv). user u = param_username m)"
    by (auto simp: find_None_iff)
  then show ?thesis by (simp add: privs_table_def Let_def)
next
  case (Some u)
  have l1: "f Get_list_users = None"
    using assms(2) by (cases "f Get_list_users") (auto simp: privs_main_calls)
  have l2: "f (Get_list_grants (param_username m)) = None"
    using assms(2) l1 Some
    by (cases "f (Get_list_grants (param_username m))") (auto simp: privs_main_calls)
  have issued:
    "\<forall>c. privs_reconcile m (grants srv (param_username m)) = Some c \<longrightarrow> f c = None"
    using assms l1 l2 Some by (auto simp: privs_main_calls)
  note run = privs_main_clean_run[OF assms(1) l1 l2 issued Some]
  show ?thesis
  proof (cases "find (grant_matches (param_privilege m) (param_database m))
                  (grants srv (param_username m))")
    case None
    then have "\<not> (\<exists>g \<in> set (grants srv (param_username m)).
                  grant_matches (param_privilege m) (param_database m) g)"
      by (auto simp: find_None_iff)
    with None show ?thesis
      by (cases "param_state m")
         (simp_all add: privs_table_def Let_def run privs_reconcile_def mutations_def)
  next
    case g: (Some g)
    then have "\<exists>g \<in> set (grants srv (param_username m)).
                  grant_matches (param_privilege m) (param_database m) g"
      by (auto simp: find_Some_iff)
    with g show ?thesis
      by (cases "param_state m")
         (simp_all add: privs_table_def Let_def run privs_reconcile_def mutations_def)
  qed
qed

theorem privs_table_normal_run_witness:
  "\<not> check_mode todd_all \<and>
   privs_table True todd_all srv_todd no_raise \<and>
   mutations (privs_main True todd_all srv_todd no_raise) =
     [Grant_privilege PrivAll ''NOAA_water_database'' ''todd''] \<and>
   fst (privs_main True todd_all srv_todd no_raise) = Exit_json True \<and>
   privs_table True todd_all srv_todd_granted no_raise \<and>
   privs_main True todd_all srv_todd_granted no_raise =
     (Exit_json False,
      \<lparr>server = srv_todd_granted, raises = no_raise,
       calls = [Get_list_users, Get_list_grants ''todd'']\<rparr>) \<and>
   privs_table True (todd_all\<lparr>param_state := Absent\<rparr>) srv_todd_granted no_raise \<and>
   mutations (privs_main True (todd_all\<lparr>param_state := Absent\<rparr>) srv_todd_granted no_raise) =
     [Revoke_privilege PrivAll ''NOAA_water_database'' ''todd''] \<and>
   privs_table True (todd_all\<lparr>param_state := Absent\<rparr>) srv_todd no_raise \<and>
   fst (privs_main True (todd_all\<lparr>param_state := Absent\<rparr>) srv_todd no_raise) =
     Exit_json False \<and>
   privs_table True todd_all srv_todd_granted
     (no_raise(Grant_privilege PrivAll ''NOAA_water_database'' ''todd'' :=
        Some (ConnectionError ''refused'')))"
  using privs_table_normal_run[where m = todd_all and f = no_raise and srv = srv_todd]
    privs_table_normal_run[where m = todd_all and f = no_raise and srv = srv_todd_granted]
    privs_table_normal_run[where m = "todd_all\<lparr>param_state := Absent\<rparr>" and f = no_raise
      and srv = srv_todd_granted]
    privs_table_normal_run[where m = "todd_all\<lparr>param_state := Absent\<rparr>" and f = no_raise
      and srv = srv_todd]
    privs_table_normal_run[where m = todd_all and srv = srv_todd_granted
      and f = "no_raise(Grant_privilege PrivAll ''NOAA_water_database'' ''todd'' :=
                 Some (ConnectionError ''refused''))"]
  by (simp add: privs_main_run privs_reconcile_def attempt_def mutations_def todd_all_def
        srv_todd_def srv_todd_granted_def todd_grants_def grant_matches_def no_raise_def)

subsection \<open>C3: a second application of the same input\<close>

text \<open>
  C3, evaluated where it fails: user \<^verbatim>\<open>bob\<close> requested with \<^verbatim>\<open>state=present\<close>,
  \<^verbatim>\<open>admin=true\<close> on a server without that user. The first run reports
  \<^verbatim>\<open>changed=true\<close> and leaves \<^verbatim>\<open>bob\<close> as a non-admin, so the second run on the
  resulting server grants the admin privilege and reports \<^verbatim>\<open>changed=true\<close> again,
  where the claim has \<^verbatim>\<open>changed=false\<close>.
\<close>

theorem admin_request_not_idempotent:
  "fst (user_main True bob_admin srv_empty no_raise) = Exit_json True \<and>
   users (server (snd (user_main True bob_admin srv_empty no_raise))) =
     [\<lparr>user = ''bob'', admin = False\<rparr>] \<and>
   user_main True bob_admin (server (snd (user_main True bob_admin srv_empty no_raise))) no_raise =
     (Exit_json True,
      \<lparr>server = \<lparr>users = [\<lparr>user = ''bob'', admin = True\<rparr>], grants = (\<lambda>n. [])\<rparr>,
       raises = no_raise, calls = [Get_list_users, Grant_admin_privileges ''bob'']\<rparr>)"
  by (simp add: user_main_run user_reconcile_def attempt_def bob_admin_def srv_empty_def
        no_raise_def)

subsection \<open>C4: the created user is never an admin\<close>

text \<open>
  C4: every create-user call the user module issues passes \<^verbatim>\<open>admin=False\<close>. When the
  module runs outside dry-run mode with \<^verbatim>\<open>state=present\<close> and the listed users do not
  contain the requested name, the calls are the listing and one
  \<^verbatim>\<open>create_user(name, password, admin=False)\<close>, whatever the \<^verbatim>\<open>admin\<close> parameter; if the
  call returns, the server holds the new user as a non-admin.
\<close>

theorem create_user_admin_false:
  "(\<forall>c \<in> set (calls (snd (user_main H m srv f))).
      \<forall>n p a. c = Create_user n p a \<longrightarrow> a = False) \<and>
   (H \<and> \<not> check_mode m \<and> param_state m = Present \<and> f Get_list_users = None \<and>
      find (\<lambda>u. user u = param_name m) (users srv) = None \<longrightarrow>
      calls (snd (user_main H m srv f)) =
        [Get_list_users, Create_user (param_name m) (param_password m) False] \<and>
      (f (Create_user (param_name m) (param_password m) False) = None \<longrightarrow>
         users (server (snd (user_main H m srv f))) =
           users srv @ [\<lparr>user = param_name m, admin = False\<rparr>]))"
proof -
  have a: "a = False"
    if "Create_user n p a \<in> set (calls (snd (user_main H m srv f)))" for n p a
    using that
    by (auto simp: user_main_calls split: if_splits option.splits dest: user_reconcile_cases)
  have b: "calls (snd (user_main H m srv f)) =
        [Get_list_users, Create_user (param_name m) (param_password m) False] \<and>
      (f (Create_user (param_name m) (param_password m) False) = None \<longrightarrow>
         users (server (snd (user_main H m srv f))) =
           users srv @ [\<lparr>user = param_name m, admin = False\<rparr>])"
    if "H" "\<not> check_mode m" "param_state m = Present" "f Get_list_users = None"
       "find (\<lambda>u. user u = param_name m) (users srv) = None"
  proof -
    have r: "user_reconcile m (users srv) =
               Some (Create_user (param_name m) (param_password m) False)"
      using that by (simp add: user_reconcile_def)
    have "param_name m \<notin> user ` set (users srv)"
      using that(5) by (auto simp: find_None_iff)
    then show ?thesis
      using that r by (simp add: user_main_run attempt_def split: option.splits)
  qed
  from a b show ?thesis by blast
qed

theorem create_user_admin_false_witness:
  "param_admin bob_admin \<and> \<not> check_mode bob_admin \<and> param_state bob_admin = Present \<and>
   no_raise Get_list_users = None \<and>
   find (\<lambda>u. user u = param_name bob_admin) (users srv_empty) = None \<and>
   calls (snd (user_main True bob_admin srv_empty no_raise)) =
     [Get_list_users, Create_user ''bob'' ''secret'' False] \<and>
   users (server (snd (user_main True bob_admin srv_empty no_raise))) =
     [\<lparr>user = ''bob'', admin = False\<rparr>]"
  using create_user_admin_false[where H = True and m = bob_admin and srv = srv_empty
    and f = no_raise]
  by (simp add: bob_admin_def srv_empty_def no_raise_def)

subsection \<open>C5: dry-run mode\<close>

text \<open>
  C5: for every input, server and exception plan, a dry run of either module issues no
  mutating call; whenever the run outside dry-run mode reports a changed flag, the dry
  run reports the same flag; and when no mutating call raises, both runs end the same
  way.
\<close>

theorem dry_run_reports_without_mutating:
  "mutations (user_main H (m\<lparr>check_mode := True\<rparr>) srv f) = [] \<and>
   (fst (user_main H (m\<lparr>check_mode := False\<rparr>) srv f) = Exit_json c \<longrightarrow>
      fst (user_main H (m\<lparr>check_mode := True\<rparr>) srv f) = Exit_json c) \<and>
   ((\<forall>x. mutating x \<longrightarrow> f x = None) \<longrightarrow>
      fst (user_main H (m\<lparr>check_mode := True\<rparr>) srv f) =
      fst (user_main H (m\<lparr>check_mode := False\<rparr>) srv f)) \<and>
   mutations (privs_main H (pm\<lparr>check_mode := True\<rparr>) srv f) = [] \<and>
   (fst (privs_main H (pm\<lparr>check_mode := False\<rparr>) srv f) = Exit_json c \<longrightarrow>
      fst (privs_main H (pm\<lparr>check_mode := True\<rparr>) srv f) = Exit_json c) \<and>
   ((\<forall>x. mutating x \<longrightarrow> f x = None) \<longrightarrow>
      fst (privs_main H (pm\<lparr>check_mode := True\<rparr>) srv f) =
      fst (privs_main H (pm\<lparr>check_mode := False\<rparr>) srv f))"
proof -
  have s: "surfaced x e \<noteq> Exit_json b" for x e b
    by (cases e) simp_all
  have u1: "mutations (user_main H (m\<lparr>check_mode := True\<rparr>) srv f) = []"
    by (simp add: mutations_def user_main_calls split: option.splits)
  have u2: "fst (user_main H (m\<lparr>check_mode := True\<rparr>) srv f) = Exit_json c"
    if "fst (user_main H (m\<lparr>check_mode := False\<rparr>) srv f) = Exit_json c"
    using that by (auto simp: user_main_outcome s split: if_splits option.splits)
  have u3: "fst (user_main H (m\<lparr>check_mode := True\<rparr>) srv f) =
            fst (user_main H (m\<lparr>check_mode := False\<rparr>) srv f)"
    if "\<forall>x. mutating x \<longrightarrow> f x = None"
    using that
    by (auto simp: user_main_outcome split: option.splits dest: user_reconcile_mutating)
  have p1: "mutations (privs_main H (pm\<lparr>check_mode := True\<rparr>) srv f) = []"
    by (simp add: mutations_def privs_main_calls split: option.splits)
  have p2: "fst (privs_main H (pm\<lparr>check_mode := True\<rparr>) srv f) = Exit_json c"
    if "fst (privs_main H (pm\<lparr>check_mode := False\<rparr>) srv f) = Exit_json c"
    using that by (auto simp: privs_main_outcome s split: if_splits option.splits)
  have p3: "fst (privs_main H (pm\<lparr>check_mode := True\<rparr>) srv f) =
            fst (privs_main H (pm\<lparr>check_mode := False\<rparr>) srv f)"
    if "\<forall>x. mutating x \<longrightarrow> f x = None"
    using that
    by (auto simp: privs_main_outcome split: option.splits dest: privs_reconcile_mutating)
  from u1 u2 u3 p1 p2 p3 show ?thesis by blast
qed

theorem dry_run_reports_without_mutating_witness:
  "fst (user_main True (bob_admin\<lparr>check_mode := False\<rparr>) srv_empty no_raise) = Exit_json True \<and>
   calls (snd (user_main True (bob_admin\<lparr>check_mode := True\<rparr>) srv_empty no_raise)) =
     [Get_list_users] \<and>
   fst (user_main True (bob_admin\<lparr>check_mode := True\<rparr>) srv_empty no_raise) = Exit_json True \<and>
   fst (privs_main True (todd_all\<lparr>check_mode := False\<rparr>) srv_todd no_raise) = Exit_json True \<and>
   calls (snd (privs_main True (todd_all\<lparr>check_mode := True\<rparr>) srv_todd no_raise)) =
     [Get_list_users, Get_list_grants ''todd''] \<and>
   fst (privs_main True (todd_all\<lparr>check_mode := True\<rparr>) srv_todd no_raise) = Exit_json True"
  using dry_run_reports_without_mutating[where H = True and m = bob_admin and pm = todd_all
    and srv = srv_empty and f = no_raise and c = True]
    dry_run_reports_without_mutating[where H = True and m = bob_admin and pm = todd_all
    and srv = srv_todd and f = no_raise and c = True]
  by (simp add: user_main_run privs_main_run user_reconcile_def privs_reconcile_def attempt_def
        bob_admin_def todd_all_def srv_empty_def srv_todd_def no_raise_def)

subsection \<open>C6: privileges of a user that does not exist\<close>




subsection \<open>C7: which exception is reported for which call\<close>

text \<open>
  C7: whenever a call either module has issued raised, the error path is fixed by the
  call's class. A connection error raised by listing the users, listing the grants,
  creating a user or granting a privilege ends the invocation in \<^verbatim>\<open>fail_json\<close> with the
  error's text as message; a client rejection raised by dropping a user, granting or
  revoking the admin privilege or revoking a privilege ends it in \<^verbatim>\<open>fail_json\<close> with the
  rejection's content as message.
\<close>

theorem error_paths_by_operation_class:
  "(c \<in> set (calls (snd (user_main H m srv f))) \<and> connection_guarded c \<and>
      f c = Some (ConnectionError t) \<longrightarrow> fst (user_main H m srv f) = Fail_json t) \<and>
   (c \<in> set (calls (snd (user_main H m srv f))) \<and> rejection_guarded c \<and>
      f c = Some (InfluxDBClientError k) \<longrightarrow> fst (user_main H m srv f) = Fail_json k) \<and>
   (c \<in> set (calls (snd (privs_main H pm srv f))) \<and> connection_guarded c \<and>
      f c = Some (ConnectionError t) \<longrightarrow> fst (privs_main H pm srv f) = Fail_json t) \<and>
   (c \<in> set (calls (snd (privs_main H pm srv f))) \<and> rejection_guarded c \<and>
      f c = Some (InfluxDBClientError k) \<longrightarrow> fst (privs_main H pm srv f) = Fail_json k)"
proof -
  have u: "fst (user_main H m srv f) = surfaced c e"
    if "c \<in> set (calls (snd (user_main H m srv f)))" "f c = Some e" for e
    using that
    by (auto simp: user_main_calls user_main_outcome split: if_splits option.splits)
  have p: "fst (privs_main H pm srv f) = surfaced c e"
    if "c \<in> set (calls (snd (privs_main H pm srv f)))" "f c = Some e" for e
    using that
    by (auto simp: privs_main_calls privs_main_outcome split: if_splits option.splits)
  show ?thesis
    using u[of "ConnectionError t"] u[of "InfluxDBClientError k"]
          p[of "ConnectionError t"] p[of "InfluxDBClientError k"]
    by simp
qed

theorem error_paths_by_operation_class_witness:
  "calls (snd (user_main True bob_admin srv_empty
     (no_raise(Create_user ''bob'' ''secret'' False := Some (ConnectionError ''refused''))))) =
     [Get_list_users, Create_user ''bob'' ''secret'' False] \<and>
   fst (user_main True bob_admin srv_empty
     (no_raise(Create_user ''bob'' ''secret'' False := Some (ConnectionError ''refused'')))) =
     Fail_json ''refused'' \<and>
   calls (snd (privs_main True (todd_all\<lparr>param_state := Absent\<rparr>) srv_todd_granted
     (no_raise(Revoke_privilege PrivAll ''NOAA_water_database'' ''todd'' :=
        Some (InfluxDBClientError ''denied''))))) =
     [Get_list_users, Get_list_grants ''todd'',
      Revoke_privilege PrivAll ''NOAA_water_database'' ''todd''] \<and>
   fst (privs_main True (todd_all\<lparr>param_state := Absent\<rparr>) srv_todd_granted
     (no_raise(Revoke_privilege PrivAll ''NOAA_water_database'' ''todd'' :=
        Some (InfluxDBClientError ''denied'')))) = Fail_json ''denied''"
  using error_paths_by_operation_class[where H = True and m = bob_admin and srv = srv_empty
      and c = "Create_user ''bob'' ''secret'' False" and t = "''refused''"
      and f = "no_raise(Create_user ''bob'' ''secret'' False := Some (ConnectionError ''refused''))"]
    error_paths_by_operation_class[where H = True
      and pm = "todd_all\<lparr>param_state := Absent\<rparr>" and srv = srv_todd_granted
      and c = "Revoke_privilege PrivAll ''NOAA_water_database'' ''todd''" and k = "''denied''"
      and f = "no_raise(Revoke_privilege PrivAll ''NOAA_water_database'' ''todd'' :=
                 Some (InfluxDBClientError ''denied''))"]
  by (simp add: user_main_calls privs_main_calls user_reconcile_def privs_reconcile_def
        bob_admin_def todd_all_def srv_empty_def srv_todd_granted_def todd_grants_def
        grant_matches_def no_raise_def)

subsection \<open>C8: the grant lookup\<close>

text \<open>
  C8: when the user exists and both listings return, \<^verbatim>\<open>find_grant\<close> returns the result of
  its loop over the user's grant list. The loop returns a grant if and only if some grant
  of the list is on the requested database with a privilege string among \<^verbatim>\<open>READ\<close>,
  \<^verbatim>\<open>WRITE\<close>, \<^verbatim>\<open>ALL PRIVILEGES\<close> that maps to the requested level, and the grant it
  returns is such a grant. Grants whose privilege string is outside the four keys of the
  map are skipped: removing them from the list leaves the result as it is.
\<close>

theorem grant_lookup:
  assumes "raises cl Get_list_users = None"
    and "\<exists>u \<in> set (users (server cl)). user u = n"
    and "raises cl (Get_list_grants n) = None"
  shows "fst (find_grant m cl priv db n) = Inr (find_grant_loop (grants (server cl) n) priv db) \<and>
         ((\<exists>g. find_grant_loop (grants (server cl) n) priv db = Some g) \<longleftrightarrow>
            (\<exists>g \<in> set (grants (server cl) n). grant_matches priv db g)) \<and>
         (\<forall>g. find_grant_loop (grants (server cl) n) priv db = Some g \<longrightarrow>
            g \<in> set (grants (server cl) n) \<and> grant_matches priv db g) \<and>
         find_grant_loop (filter known_privilege (grants (server cl) n)) priv db =
           find_grant_loop (grants (server cl) n) priv db"
proof -
  have "find (\<lambda>u. user u = n) (users (server cl)) \<noteq> None"
    using assms(2) by (auto simp: find_None_iff)
  then have a: "fst (find_grant m cl priv db n) =
                  Inr (find_grant_loop (grants (server cl) n) priv db)"
    using assms(1,3) by (auto simp: find_grant_eq find_user_run find_grant_loop_find)
  have b: "(\<exists>g. find_grant_loop gs priv db = Some g) \<longleftrightarrow>
             (\<exists>g \<in> set gs. grant_matches priv db g)" for gs
    using find_None_iff[of "grant_matches priv db" gs]
    by (auto simp: find_grant_loop_find)
  have c: "g \<in> set gs \<and> grant_matches priv db g"
    if "find_grant_loop gs priv db = Some g" for gs g
    using that by (auto simp: find_grant_loop_find find_Some_iff)
  have "known_privilege g" if "grant_matches priv db g" for g
    using that by (auto simp: grant_matches_def known_privilege_def)
  then have d: "find_grant_loop (filter known_privilege gs) priv db = find_grant_loop gs priv db"
    for gs
    by (simp add: find_grant_loop_find find_filter_superset)
  from a b c d show ?thesis by blast
qed

theorem grant_lookup_witness:
  "fst (find_grant todd_all (connect_to_influxdb todd_all srv_todd_granted no_raise)
          PrivAll ''NOAA_water_database'' ''todd'') =
     Inr (Some \<lparr>database = ''NOAA_water_database'', privilege = ''ALL PRIVILEGES''\<rparr>) \<and>
   \<not> known_privilege \<lparr>database = ''NOAA_water_database'', privilege = ''SUPERUSER''\<rparr> \<and>
   find_grant_loop todd_grants PrivRead ''NOAA_water_database'' = None"
  using grant_lookup[where cl = "connect_to_influxdb todd_all srv_todd_granted no_raise"
    and n = "''todd''" and m = todd_all and priv = PrivAll and db = "''NOAA_water_database''"]
  by (simp add: connect_to_influxdb_def srv_todd_granted_def todd_grants_def no_raise_def
        privilege_map_def known_privilege_def)

subsection \<open>C9: at most one mutating call\<close>

text \<open>
  C9: every invocation of either module, whatever its parameters, the server and the
  exceptions raised, has issued at most one mutating call when it ends; this covers the
  runs that end in \<^verbatim>\<open>fail_json\<close> or in an uncaught exception.
\<close>

theorem at_most_one_mutation:
  "length (mutations (user_main H m srv f)) \<le> 1 \<and>
   length (mutations (privs_main H pm srv f)) \<le> 1"
  by (simp add: mutations_def user_main_calls privs_main_calls split: option.splits)

theorem at_most_one_mutation_witness:
  "mutations (user_main True bob_admin srv_bob (\<lambda>c. Some (InfluxDBClientError ''denied''))) = [] \<and>
   mutations (user_main True bob_admin srv_bob
     (no_raise(Grant_admin_privileges ''bob'' := Some (InfluxDBClientError ''denied'')))) =
     [Grant_admin_privileges ''bob''] \<and>
   mutations (privs_main True todd_all srv_todd no_raise) =
     [Grant_privilege PrivAll ''NOAA_water_database'' ''todd'']"
  using at_most_one_mutation[where H = True and m = bob_admin and srv = srv_bob
      and f = "no_raise(Grant_admin_privileges ''bob'' := Some (InfluxDBClientError ''denied''))"
      and pm = todd_all]
  by (simp add: mutations_def user_main_calls privs_main_calls user_reconcile_def
        privs_reconcile_def bob_admin_def todd_all_def srv_bob_def srv_todd_def no_raise_def)

subsection \<open>C10: the password of an existing user\<close>

text \<open>
  C10: when the server holds a user of the requested name, two invocations of the user
  module that differ only in the \<^verbatim>\<open>password\<close> parameter issue the same calls and end the
  same way, and no call that carries the password (\<^verbatim>\<open>create_user\<close>) is issued. This holds
  for \<^verbatim>\<open>state=present\<close> in particular.
\<close>

theorem existing_user_password_unused:
  assumes "\<exists>u \<in> set (users srv). user u = param_name m"
  shows "user_main H (m\<lparr>param_password := p1\<rparr>) srv f =
         user_main H (m\<lparr>param_password := p2\<rparr>) srv f \<and>
         (\<forall>c \<in> set (calls (snd (user_main H m srv f))). \<not> sends_password c)"
proof -
  have found: "find (\<lambda>u. user u = param_name m) (users srv) \<noteq> None"
    using assms by (auto simp: find_None_iff)
  have att: "attempt (m\<lparr>param_password := p\<rparr>) c cl = attempt m c cl" for p c cl
    by (simp add: attempt_def)
  have eq: "user_main H (m\<lparr>param_password := p\<rparr>) srv f = user_main H m srv f" for p
    using found
    by (cases H) (simp_all add: user_main_run user_main_no_library att split: option.splits)
  have "\<not> sends_password c" if "c \<in> set (calls (snd (user_main H m srv f)))" for c
    using that found
    by (auto simp: user_main_calls split: if_splits option.splits dest: user_reconcile_cases)
  with eq show ?thesis by simp
qed

theorem existing_user_password_unused_witness:
  "param_state bob_admin = Present \<and>
   user_main True (bob_admin\<lparr>param_password := ''one''\<rparr>) srv_bob no_raise =
   user_main True (bob_admin\<lparr>param_password := ''two''\<rparr>) srv_bob no_raise \<and>
   calls (snd (user_main True bob_admin srv_bob no_raise)) =
     [Get_list_users, Grant_admin_privileges ''bob'']"
  using existing_user_password_unused[where srv = srv_bob and m = bob_admin and H = True
    and f = no_raise and ?p1.0 = "''one''" and ?p2.0 = "''two''"]
  by (simp add: user_main_calls user_reconcile_def bob_admin_def srv_bob_def no_raise_def)

end
